theory Spec2Isabelle
  imports Complex_Main
begin

section \<open>Python strings and \<open>urllib.parse.urlparse\<close>\<close>

text \<open>
  The web view (\<open>src/view_web.py\<close>) works on Python strings. They are modelled as
  \<^typ>\<open>string\<close>; every delimiter the code searches for is an ASCII character, so
  the UTF-8 bytes of a string split where its code points do.

  \<open>s[:s.find(c)]\<close> and \<open>s[s.find(c)+1:]\<close>, the two halves of \<open>s.split(c, 1)\<close>
  when \<open>c\<close> occurs in \<open>s\<close>:
\<close>

definition upto :: "char \<Rightarrow> string \<Rightarrow> string" where
  "upto c s = takeWhile (\<lambda>x. x \<noteq> c) s"

definition past :: "char \<Rightarrow> string \<Rightarrow> string" where
  "past c s = drop 1 (dropWhile (\<lambda>x. x \<noteq> c) s)"

text \<open>\<open>s.replace(old, new)\<close>: the occurrences of \<open>old\<close> are replaced from left to right,
  without overlap; an empty \<open>old\<close> matches before every character and at the end.\<close>

function replace :: "string \<Rightarrow> string \<Rightarrow> string \<Rightarrow> string" where
  "replace old new s =
     (if old = [] then new @ concat (map (\<lambda>c. c # new) s)
      else if s = [] then []
      else if take (length old) s = old then new @ replace old new (drop (length old) s)
      else hd s # replace old new (tl s))"
  by pat_completeness auto
termination
  by (relation "measure (\<lambda>(old, new, s). length s)") auto

text \<open>\<open>s.split(c)\<close> for a one-character separator (the result is never empty) and
  \<open>sep.join(parts)\<close>.\<close>

fun split :: "char \<Rightarrow> string \<Rightarrow> string list" where
  "split c [] = [[]]"
| "split c (x # xs) =
     (if x = c then [] # split c xs
      else (x # hd (split c xs)) # tl (split c xs))"

fun join :: "string \<Rightarrow> string list \<Rightarrow> string" where
  "join sep [] = []"
| "join sep [x] = x"
| "join sep (x # y # ys) = x @ sep @ join sep (y # ys)"

text \<open>\<open>str.lower\<close> on the characters a scheme may hold.\<close>

definition lower_char :: "char \<Rightarrow> char" where
  "lower_char c =
     (case map_of (zip ''ABCDEFGHIJKLMNOPQRSTUVWXYZ'' ''abcdefghijklmnopqrstuvwxyz'') c of
        None \<Rightarrow> c
      | Some l \<Rightarrow> l)"

definition lower :: "string \<Rightarrow> string" where
  "lower s = map lower_char s"

text \<open>
  \<open>urlparse\<close> is the standard library's, not the repository's. The model follows
  \<open>urlsplit\<close>, \<open>_splitnetloc\<close>, \<open>_splitparams\<close> and \<open>urlparse\<close> of CPython 3.6
  (the interpreter generation the program was written for) on \<open>str\<close> arguments with the
  default \<open>scheme=''\<close> and \<open>allow_fragments=True\<close>. \<open>urlsplit\<close> raises
  \<open>ValueError\<close> on a network location with an unmatched square bracket.
\<close>

datatype py_error = ValueError | AttributeError | UnboundLocalError

record ParseResult =
  scheme :: string
  netloc :: string
  path :: string
  params :: string
  query :: string
  fragment :: string

definition scheme_chars :: string where
  "scheme_chars =
     ''abcdefghijklmnopqrstuvwxyzABCDEFGHIJKLMNOPQRSTUVWXYZ0123456789+-.''"

definition uses_params :: "string list" where
  "uses_params = [''ftp'', ''hdl'', ''prospero'', ''http'', ''imap'', ''https'', ''shttp'',
     ''rtsp'', ''rtspu'', ''sip'', ''sips'', ''mms'', '''', ''sftp'', ''tel'']"

text \<open>The scheme and the rest of the URL. \<open>i = url.find(':')\<close>; with \<open>i > 0\<close> the
  prefix \<open>url[:i]\<close> is the scheme when it is \<open>http\<close>, or when all its characters are
  scheme characters and the rest is not a port number.\<close>

definition split_scheme :: "string \<Rightarrow> string \<times> string" where
  "split_scheme url =
     (let pre = upto CHR '':'' url; rest = drop (Suc (length pre)) url in
      if CHR '':'' \<in> set url \<and> pre \<noteq> [] then
        if pre = ''http'' then (lower pre, rest)
        else if list_all (\<lambda>c. c \<in> set scheme_chars) pre
                \<and> (rest = [] \<or> list_ex (\<lambda>c. c \<notin> set ''0123456789'') rest)
             then (lower pre, rest)
        else ('''', url)
      else ('''', url))"

definition splitnetloc :: "string \<Rightarrow> string \<times> string" where
  "splitnetloc url =
     (takeWhile (\<lambda>c. c \<notin> set ''/?#'') (drop 2 url),
      dropWhile (\<lambda>c. c \<notin> set ''/?#'') (drop 2 url))"

definition urlsplit :: "string \<Rightarrow> py_error + ParseResult" where
  "urlsplit url0 =
     (let (sch, url1) = split_scheme url0;
          (loc, url2) = (if take 2 url1 = ''//'' then splitnetloc url1 else ('''', url1));
          (url3, frag) = (if CHR ''#'' \<in> set url2
                          then (upto CHR ''#'' url2, past CHR ''#'' url2) else (url2, ''''));
          (url4, qry) = (if CHR ''?'' \<in> set url3
                         then (upto CHR ''?'' url3, past CHR ''?'' url3) else (url3, ''''))
      in if (CHR ''['' \<in> set loc \<and> CHR '']'' \<notin> set loc)
            \<or> (CHR '']'' \<in> set loc \<and> CHR ''['' \<notin> set loc)
         then Inl ValueError
         else Inr \<lparr>scheme = sch, netloc = loc, path = url4, params = '''',
                   query = qry, fragment = frag\<rparr>)"

text \<open>\<open>_splitparams\<close>: the parameters start at the first \<open>;\<close> of the last path
  segment.\<close>

definition splitparams :: "string \<Rightarrow> string \<times> string" where
  "splitparams url =
     (if CHR ''/'' \<in> set url then
        (let seg = rev (upto CHR ''/'' (rev url));
             front = take (length url - length seg) url
         in if CHR '';'' \<in> set seg
            then (front @ upto CHR '';'' seg, past CHR '';'' seg)
            else (url, ''''))
      else (upto CHR '';'' url, past CHR '';'' url))"

definition urlparse :: "string \<Rightarrow> py_error + ParseResult" where
  "urlparse url =
     (case urlsplit url of
        Inl e \<Rightarrow> Inl e
      | Inr r \<Rightarrow>
          if scheme r \<in> set uses_params \<and> CHR '';'' \<in> set (path r)
          then Inr (r\<lparr>path := fst (splitparams (path r)),
                      params := snd (splitparams (path r))\<rparr>)
          else Inr r)"

section \<open>The web view: state, collaborators and effects\<close>

text \<open>
  \<open>WebView\<close> holds the private attributes of the class that the handlers below read or
  write. \<open>insecure_content_detected\<close> is \<open>None\<close> while the attribute has not been
  assigned (\<open>__init\<close> does not create it); \<open>related_view\<close> is a handle of the related
  view given to \<open>new_with_related_view\<close>.
\<close>

text \<open>
  Python numbers. The stored zoom levels and a window's zoom level are numbers of the
  application; the products and quotients the view forms of them are the interpreter's,
  floating-point rounding included. They are kept as the code writes them:
  \<open>Mul a b\<close> is the value of \<open>a * b\<close> and \<open>TrueDiv a b\<close> the value of \<open>a / b\<close>.
\<close>

datatype number = Num real | Mul number number | TrueDiv number number

datatype TlsCertificate = TlsCertificate nat

record WebView =
  loaded_uri :: string
  title :: string
  bad_tls :: "TlsCertificate option"
  popup_exception :: "string option"
  insecure_content_detected :: "bool option"
  related_view :: "nat option"

text \<open>
  What the handlers read from outside the view: the engine (\<open>can_show_mime_type\<close>,
  \<open>get_uri\<close>, \<open>get_title\<close>), the application's settings (\<open>popupblock\<close>,
  \<open>imgblock\<close>, \<open>adblock\<close>), its ad-block exception registry, the stored zoom levels,
  the zoom level of the window a view sits in (\<open>None\<close> when \<open>get_ancestor\<close> finds no
  window; the argument is \<open>None\<close> for the view itself and the handle of the related view
  otherwise), the network monitor, the names of the bundled ad-block scripts, the error
  page's style sheet and GLib's \<open>uri_unescape_string\<close>.
\<close>

record env =
  can_show_mime_type :: "string \<Rightarrow> bool"
  popupblock :: bool
  imgblock :: bool
  adblock :: bool
  is_an_exception :: "string \<Rightarrow> bool"
  zoom_levels :: "string \<Rightarrow> number option"
  window_zoom_level :: "nat option \<Rightarrow> number option"
  get_uri :: string
  get_title :: "string option"
  network_available :: bool
  adblock_children :: "string list"
  error_css :: string
  uri_unescape_string :: "string \<Rightarrow> string option"

datatype PolicyDecisionType = NAVIGATION_ACTION | NEW_WINDOW_ACTION | RESPONSE

datatype NavigationType =
  LINK_CLICKED | FORM_SUBMITTED | BACK_FORWARD | RELOAD | FORM_RESUBMITTED | OTHER

datatype LoadEvent = STARTED | REDIRECTED | COMMITTED | FINISHED

text \<open>The decision object handed to \<open>decide-policy\<close>: the response's MIME type, and the
  navigation action's request URI, mouse button (0 when no button was pressed) and
  navigation type.\<close>

record policy_decision =
  mime_type :: string
  request_uri :: string
  mouse_button :: nat
  navigation_type :: NavigationType

text \<open>The nine values substituted into the error page template, in the order of the
  tuple given to \<open>html % (...)\<close>.\<close>

record error_page =
  page_title :: string
  page_css :: string
  page_action :: string
  page_icon :: string
  page_heading :: string
  page_message :: string
  page_detail :: string
  page_button_class :: string
  page_button_label :: string

datatype printed = PStr string | PInt int | PNum number | PErr py_error

text \<open>The calls a handler makes on the engine, the decision object, the toolkit and the
  application, in the order it makes them.\<close>

datatype effect =
    DecisionUse
  | DecisionDownload
  | DecisionIgnore
  | EmitNewPage string bool
  | EmitTitleChanged string
  | CancellableCancel
  | CancellableReset
  | LoadPlainText string
  | SpawnFtp string
  | RunJavascript string
  | WebKitLoadUri string
  | LoadHtml error_page
  | SetProperty string bool
  | SetSystemFonts
  | SetSettings
  | SetZoomLevel number
  | RunJavascriptFromGResource string
  | AllowTlsCertificateForHost TlsCertificate string
  | DeleteArt string string
  | TimeoutAdd nat string
  | Print "printed list"
  | Debug "printed list"

text \<open>A handler returns \<open>True\<close>, \<open>False\<close> or nothing (\<open>None\<close>), or raises.\<close>

datatype outcome = Return "bool option" | Raise py_error

type_synonym result = "WebView \<times> effect list \<times> outcome"

section \<open>\<open>load_uri\<close>\<close>

definition load_uri :: "env \<Rightarrow> WebView \<Rightarrow> string \<Rightarrow> result" where
  "load_uri E self uri =
     (if uri = ''about:blank'' then
        (self\<lparr>loaded_uri := uri\<rparr>,
         [CancellableCancel, CancellableReset, LoadPlainText ''''], Return None)
      else
        case urlparse uri of
          Inl e \<Rightarrow> (self, [CancellableCancel, CancellableReset], Raise e)
        | Inr parsed \<Rightarrow>
            if scheme parsed = ''ftp'' then
              (self, [CancellableCancel, CancellableReset, SpawnFtp uri], Return None)
            else if scheme parsed = ''javascript'' then
              (case uri_unescape_string E uri of
                 None \<Rightarrow> (self, [CancellableCancel, CancellableReset], Raise AttributeError)
               | Some u \<Rightarrow>
                   (self, [CancellableCancel, CancellableReset,
                           RunJavascript (replace ''javascript:'' '''' u)], Return None))
            else if scheme parsed \<notin> set [''http'', ''https'', ''file'', ''populars'', ''accept''] then
              (self\<lparr>loaded_uri := ''http://'' @ uri\<rparr>,
               [CancellableCancel, CancellableReset, WebKitLoadUri (''http://'' @ uri)],
               Return None)
            else if scheme parsed \<noteq> ''accept'' then
              (self\<lparr>bad_tls := None, insecure_content_detected := Some False,
                    loaded_uri := uri\<rparr>,
               [CancellableCancel, CancellableReset, WebKitLoadUri uri], Return None)
            else
              (self\<lparr>loaded_uri := uri\<rparr>,
               [CancellableCancel, CancellableReset, WebKitLoadUri uri], Return None))"

section \<open>\<open>__on_decide_policy\<close>\<close>

definition on_decide_policy ::
  "env \<Rightarrow> WebView \<Rightarrow> policy_decision \<Rightarrow> PolicyDecisionType \<Rightarrow> result" where
  "on_decide_policy E self decision decision_type =
     (if decision_type = RESPONSE then
        (if can_show_mime_type E (mime_type decision)
         then (self, [DecisionUse], Return (Some False))
         else (self, [DecisionDownload], Return (Some False)))
      else if mouse_button decision = 0 then
        (if decision_type = NEW_WINDOW_ACTION then
           (case urlparse (request_uri decision) of
              Inl e \<Rightarrow> (self, [], Raise e)
            | Inr parsed \<Rightarrow>
                if (is_an_exception E (netloc parsed)
                    \<or> is_an_exception E (netloc parsed @ path parsed))
                   \<or> \<not> popupblock E
                   \<or> navigation_type decision \<notin> set [OTHER, RELOAD, BACK_FORWARD]
                then (self, [EmitNewPage (request_uri decision) True, DecisionIgnore],
                      Return (Some True))
                else (self, [], Return None))
         else (self, [DecisionUse], Return (Some False)))
      else if mouse_button decision = 1 then
        (if decision_type = NEW_WINDOW_ACTION
         then (self\<lparr>loaded_uri := request_uri decision\<rparr>,
               [EmitNewPage (request_uri decision) True, DecisionIgnore], Return (Some True))
         else (self\<lparr>loaded_uri := request_uri decision\<rparr>,
               [DecisionUse], Return (Some False)))
      else
        (self, [EmitNewPage (request_uri decision) False, DecisionIgnore],
         Return (Some True)))"

text \<open>
  The engine's side of \<open>decide-policy\<close>, as WebKitGTK documents the signal: a handler
  that returns \<open>True\<close> ends the emission; otherwise (a Python handler that returns
  \<open>False\<close> or nothing, or raises, has not handled the signal) the signal's default
  handler runs and calls \<open>use\<close> on the decision. Of the calls made on one decision
  object only the first takes effect; \<open>decision_taken\<close> is that call.
\<close>

definition emit_decide_policy ::
  "env \<Rightarrow> WebView \<Rightarrow> policy_decision \<Rightarrow> PolicyDecisionType \<Rightarrow> WebView \<times> effect list" where
  "emit_decide_policy E self decision decision_type =
     (case on_decide_policy E self decision decision_type of
        (self', effs, out) \<Rightarrow>
          (self', if out = Return (Some True) then effs else effs @ [DecisionUse]))"

fun decision_taken :: "effect list \<Rightarrow> effect option" where
  "decision_taken [] = None"
| "decision_taken (e # es) =
     (if e = DecisionUse \<or> e = DecisionDownload \<or> e = DecisionIgnore then Some e
      else decision_taken es)"

section \<open>\<open>set_setting\<close> and \<open>update_zoom_level\<close>\<close>

definition set_setting :: "string \<Rightarrow> bool \<Rightarrow> effect list" where
  "set_setting key v =
     (if key = ''use-system-fonts'' then [SetSystemFonts, SetSettings]
      else [SetProperty key v, SetSettings])"

text \<open>
  The body of the \<open>try\<close> parses the view's URI, reads the stored zoom of its host (100
  without an entry) and multiplies it by the zoom level of the window of the related
  view, or of the view itself when it has no related view. Any exception is printed and
  swallowed: when that window is not found, \<open>zoom_level\<close> keeps the host's value; when
  \<open>urlparse\<close> raised, \<open>zoom_level\<close> was never bound and the line after the \<open>try\<close>
  raises.
\<close>

definition update_zoom_level :: "env \<Rightarrow> WebView \<Rightarrow> result" where
  "update_zoom_level E self =
     (case urlparse (get_uri E) of
        Inl e \<Rightarrow>
          (self, [Print [PStr ''WebView::update_zoom_level()'', PErr e]],
           Raise UnboundLocalError)
      | Inr parsed \<Rightarrow>
          (let zoom_level = (case zoom_levels E (netloc parsed) of
                               Some z \<Rightarrow> z
                             | None \<Rightarrow> Num 100)
           in case window_zoom_level E (related_view self) of
                None \<Rightarrow>
                  (self, [Print [PStr ''WebView::update_zoom_level()'', PErr AttributeError],
                          Debug [PStr ''Update zoom level: '', PNum zoom_level],
                          SetZoomLevel (TrueDiv zoom_level (Num 100))], Return None)
              | Some w \<Rightarrow>
                  (self, [Debug [PStr ''Update zoom level: '', PNum (Mul zoom_level w)],
                          SetZoomLevel (TrueDiv (Mul zoom_level w) (Num 100))],
                   Return None)))"

section \<open>\<open>__on_accept_scheme\<close>\<close>

definition on_accept_scheme :: "env \<Rightarrow> WebView \<Rightarrow> string \<Rightarrow> result" where
  "on_accept_scheme E self uri =
     (case bad_tls self of
        None \<Rightarrow> (self, [], Return None)
      | Some certificate \<Rightarrow>
          (case urlparse uri of
             Inl e \<Rightarrow> (self, [], Raise e)
           | Inr parsed \<Rightarrow>
               (case load_uri E self (''https://'' @ netloc parsed @ path parsed) of
                  (self', effs, out) \<Rightarrow>
                    (self', AllowTlsCertificateForHost certificate (netloc parsed) # effs,
                     (case out of Raise e \<Rightarrow> Raise e | Return r \<Rightarrow> Return None)))))"

section \<open>\<open>__on_load_changed\<close>\<close>

text \<open>The loop over the two candidate script names: the first one that is bundled ends
  the loop, and is run unless the page is an ad-block exception.\<close>

fun run_adblock :: "env \<Rightarrow> ParseResult \<Rightarrow> string list \<Rightarrow> effect list" where
  "run_adblock E parsed [] = []"
| "run_adblock E parsed (javascript # javascripts) =
     (if javascript \<in> set (adblock_children E) then
        (if \<not> (is_an_exception E (netloc parsed)
                \<or> is_an_exception E (netloc parsed @ path parsed))
         then [RunJavascriptFromGResource (''/org/gnome/Eolie/adblock/'' @ javascript)]
         else [])
      else run_adblock E parsed javascripts)"

text \<open>The block under the comment \<open>We need to send a title if non exists\<close>.\<close>

definition send_title :: "env \<Rightarrow> WebView \<Rightarrow> WebView \<times> effect list" where
  "send_title E self =
     (if title self = '''' then
        (let t = (case get_title E of None \<Rightarrow> '''' | Some s \<Rightarrow> s);
             t' = (if t = '''' then get_uri E else t)
         in (self\<lparr>title := t'\<rparr>, [EmitTitleChanged t']))
      else (self, []))"

definition on_load_changed :: "env \<Rightarrow> WebView \<Rightarrow> LoadEvent \<Rightarrow> result" where
  "on_load_changed E self0 event =
     (case urlparse (get_uri E) of
        Inl e \<Rightarrow> (self0, [], Raise e)
      | Inr parsed \<Rightarrow>
          (let self = (if event = STARTED
                       then self0\<lparr>popup_exception := None, title := ''''\<rparr> else self0)
           in if event = COMMITTED then
                (let exception = (is_an_exception E (netloc parsed)
                                  \<or> is_an_exception E (netloc parsed @ path parsed))
                 in case update_zoom_level E self of
                      (self', effs, out) \<Rightarrow>
                        (self',
                         set_setting ''auto-load-images'' (\<not> imgblock E \<or> exception) @ effs,
                         out))
              else if event = FINISHED then
                (if adblock E then
                   (let (self', sent) = send_title E self;
                        unlocated_netloc =
                          join ''.'' (butlast (split CHR ''.'' (netloc parsed)));
                        javascripts = [''adblock_'' @ netloc parsed @ ''.js'',
                                       ''adblock_'' @ unlocated_netloc @ ''.js'']
                    in (self', sent @ run_adblock E parsed javascripts, Return None))
                 else (self, [], Return None))
              else (self, [], Return None)))"

section \<open>\<open>__on_load_failed\<close> and the network recheck\<close>

text \<open>\<open>gettext\<close> is read as the identity: messages are their untranslated texts.\<close>

definition on_load_failed :: "env \<Rightarrow> WebView \<Rightarrow> string \<Rightarrow> int \<Rightarrow> result" where
  "on_load_failed E self uri code =
     (if code \<notin> set [2, 4, 44] then
        (self, [Print [PStr ''WebView::__on_load_failed():'', PInt code]],
         Return (Some False))
      else
        (let css = replace ''@button@''
                     (if network_available E then '''' else ''display: none'') (error_css E);
             ttl = (if network_available E then ''Failed to load this web page''
                    else ''Network not available'');
             detail = (if network_available E
                       then ''It may be temporarily inaccessible or moved to a new address.<br/>You may wish to verify that your internet connection is working correctly.''
                       else ''Check your network connection'');
             icon = (if network_available E then ''dialog-information-symbolic.svg''
                     else ''network-offline-symbolic.svg'');
             html = \<lparr>page_title = ttl, page_css = css,
                     page_action = ''load_uri('' @ [CHR 0x27] @ uri @ [CHR 0x27] @ '')'',
                     page_icon = ''internal:///org/gnome/Eolie/'' @ icon,
                     page_heading = ttl,
                     page_message = uri @ '' is not available'',
                     page_detail = detail,
                     page_button_class = ''suggested-action'',
                     page_button_label = ''Retry''\<rparr>
         in (self,
             LoadHtml html #
               (if network_available E
                then [DeleteArt uri ''preview'', DeleteArt uri ''start'']
                else [TimeoutAdd 1000 uri]),
             Return (Some True))))"

definition check_for_network :: "env \<Rightarrow> WebView \<Rightarrow> string \<Rightarrow> result" where
  "check_for_network E self uri =
     (if network_available E then
        (case load_uri E self uri of
           (self', effs, out) \<Rightarrow>
             (self', effs, (case out of Raise e \<Rightarrow> Raise e | Return r \<Rightarrow> Return None)))
      else (self, [], Return (Some True)))"


section \<open>\<open>__on_load_failed_tls\<close>\<close>

text \<open>The values of \<open>Gio.TlsCertificateFlags\<close>, a bit mask.\<close>

definition UNKNOWN_CA :: nat where "UNKNOWN_CA = 1"
definition BAD_IDENTITY :: nat where "BAD_IDENTITY = 2"
definition NOT_ACTIVATED :: nat where "NOT_ACTIVATED = 4"
definition EXPIRED :: nat where "EXPIRED = 8"
definition REVOKED :: nat where "REVOKED = 16"
definition INSECURE :: nat where "INSECURE = 32"
definition GENERIC_ERROR :: nat where "GENERIC_ERROR = 64"

definition tls_error :: "nat \<Rightarrow> string" where
  "tls_error errors =
     (if errors = BAD_IDENTITY then ''The certificate does not match this website''
      else if errors = EXPIRED then ''The certificate has expired''
      else if errors = UNKNOWN_CA then ''The signing certificate authority is not known''
      else if errors = GENERIC_ERROR then ''The certificate contains errors''
      else if errors = REVOKED then ''The certificate has been revoked''
      else if errors = INSECURE
           then ''The certificate is signed using a weak signature algorithm''
      else if errors = NOT_ACTIVATED
           then ''The certificate activation time is still in the future''
      else ''The identity of this website has not been verified'')"

definition on_load_failed_tls ::
  "env \<Rightarrow> WebView \<Rightarrow> string \<Rightarrow> TlsCertificate \<Rightarrow> nat \<Rightarrow> result" where
  "on_load_failed_tls E self uri certificate errors =
     (self\<lparr>bad_tls := Some certificate\<rparr>,
      [LoadHtml
         \<lparr>page_title = ''Connection is not secure'',
          page_css = error_css E,
          page_action = ''load_uri('' @ [CHR 0x27] @ replace ''https://'' ''accept://'' uri
                          @ [CHR 0x27] @ '')'',
          page_icon = ''internal:///org/gnome/Eolie/dialog-warning-symbolic.svg'',
          page_heading = ''Connection is not secure'',
          page_message = tls_error errors,
          page_detail = ''This does not look like the real '' @ uri
             @ ''.<br/>Attackers might be trying to steal or alter information going to or from this site (for example, private messages, credit card information, or passwords).'',
          page_button_class = ''destructive-action'',
          page_button_label = ''Accept Risk and Proceed''\<rparr>],
      Return (Some True))"

section \<open>The handlers as events on a view\<close>

text \<open>\<open>__init\<close> connects the handlers to the engine's signals and registers the
  \<open>accept\<close> scheme; \<open>handle\<close> runs the handler an event is connected to.\<close>

datatype event =
    LoadUri string
  | DecidePolicy policy_decision PolicyDecisionType
  | LoadChanged LoadEvent
  | LoadFailed string int
  | LoadFailedTls string TlsCertificate nat
  | AcceptScheme string
  | CheckForNetwork string

fun handle :: "env \<Rightarrow> WebView \<Rightarrow> event \<Rightarrow> result" where
  "handle E self (LoadUri uri) = load_uri E self uri"
| "handle E self (DecidePolicy decision decision_type) =
     on_decide_policy E self decision decision_type"
| "handle E self (LoadChanged ev) = on_load_changed E self ev"
| "handle E self (LoadFailed uri code) = on_load_failed E self uri code"
| "handle E self (LoadFailedTls uri certificate errors) =
     on_load_failed_tls E self uri certificate errors"
| "handle E self (AcceptScheme uri) = on_accept_scheme E self uri"
| "handle E self (CheckForNetwork uri) = check_for_network E self uri"

section \<open>Sample surroundings\<close>

text \<open>A view as \<open>__init\<close> leaves it, and surroundings in which nothing is an ad-block
  exception; the theorems below are instantiated on them.\<close>

definition sample_view :: WebView where
  "sample_view =
     \<lparr>loaded_uri = '''', title = '''', bad_tls = None, popup_exception = None,
      insecure_content_detected = None, related_view = None\<rparr>"

definition sample_env :: env where
  "sample_env =
     \<lparr>can_show_mime_type = (\<lambda>m. m = ''text/html''), popupblock = True, imgblock = True,
      adblock = False, is_an_exception = (\<lambda>s. False),
      zoom_levels = [''example.org'' \<mapsto> Num 150],
      window_zoom_level = (\<lambda>r. Some (Num 2)),
      get_uri = ''http://example.org/'', get_title = None, network_available = False,
      adblock_children = [''adblock_example.js''], error_css = ''button { @button@ }'',
      uri_unescape_string = Some\<rparr>"

section \<open>Parsing the sample URIs\<close>

lemmas url_defs =
  urlparse_def urlsplit_def split_scheme_def splitnetloc_def splitparams_def upto_def
  past_def scheme_chars_def uses_params_def lower_def lower_char_def

lemma parse_ads:
  "urlparse ''https://ads.example/x'' =
     Inr \<lparr>scheme = ''https'', netloc = ''ads.example'', path = ''/x'', params = '''',
          query = '''', fragment = ''''\<rparr>"
  by (simp add: url_defs)

lemma parse_example:
  "urlparse ''http://example.org/'' =
     Inr \<lparr>scheme = ''http'', netloc = ''example.org'', path = ''/'', params = '''',
          query = '''', fragment = ''''\<rparr>"
  by (simp add: url_defs)

lemma parse_about_blank:
  "urlparse ''about:blank'' =
     Inr \<lparr>scheme = ''about'', netloc = '''', path = ''blank'', params = '''',
          query = '''', fragment = ''''\<rparr>"
  by (simp add: url_defs)

lemma parse_accept_example:
  "urlparse ''accept://example.org/'' =
     Inr \<lparr>scheme = ''accept'', netloc = ''example.org'', path = ''/'', params = '''',
          query = '''', fragment = ''''\<rparr>"
  by (simp add: url_defs)

lemma parse_https_example:
  "urlparse ''https://example.org/'' =
     Inr \<lparr>scheme = ''https'', netloc = ''example.org'', path = ''/'', params = '''',
          query = '''', fragment = ''''\<rparr>"
  by (simp add: url_defs)

lemma parse_accept_query:
  "urlparse ''accept://example.org/a?b=1'' =
     Inr \<lparr>scheme = ''accept'', netloc = ''example.org'', path = ''/a'', params = '''',
          query = ''b=1'', fragment = ''''\<rparr>"
  by (simp add: url_defs)

lemma parse_https_a:
  "urlparse ''https://example.org/a'' =
     Inr \<lparr>scheme = ''https'', netloc = ''example.org'', path = ''/a'', params = '''',
          query = '''', fragment = ''''\<rparr>"
  by (simp add: url_defs)

text \<open>\<open>replace\<close> is unfolded only where a proof asks for it.\<close>

declare replace.simps [simp del]

section \<open>The navigation policy\<close>

text \<open>
  C1. A new-window request that no mouse button started, of navigation type \<open>OTHER\<close>,
  \<open>RELOAD\<close> or \<open>BACK_FORWARD\<close>, with popup blocking on and neither the host nor
  host+path of its URI an exception: the handler emits no \<open>new-page\<close> signal, makes no
  call on the decision, leaves the view as it was and returns nothing, so the emission
  ends in the engine's default \<open>use\<close>. The decision taken is \<open>use\<close>, in the view the
  request came from, and no new view is spawned.
\<close>

theorem decide_policy_popup_suppressed:
  assumes "mouse_button d = 0"
    and "navigation_type d \<in> {OTHER, RELOAD, BACK_FORWARD}"
    and "popupblock E"
    and "urlparse (request_uri d) = Inr p"
    and "\<not> is_an_exception E (netloc p)"
    and "\<not> is_an_exception E (netloc p @ path p)"
  shows "on_decide_policy E self d NEW_WINDOW_ACTION = (self, [], Return None)
    \<and> emit_decide_policy E self d NEW_WINDOW_ACTION = (self, [DecisionUse])
    \<and> decision_taken (snd (emit_decide_policy E self d NEW_WINDOW_ACTION)) = Some DecisionUse
    \<and> list_all (\<lambda>e. \<forall>u b. e \<noteq> EmitNewPage u b)
         (snd (emit_decide_policy E self d NEW_WINDOW_ACTION))"
proof -
  from assms have handler: "on_decide_policy E self d NEW_WINDOW_ACTION = (self, [], Return None)"
    by (auto simp: on_decide_policy_def)
  then have emission: "emit_decide_policy E self d NEW_WINDOW_ACTION = (self, [DecisionUse])"
    by (simp add: emit_decide_policy_def)
  from handler emission show ?thesis by simp
qed

theorem decide_policy_popup_suppressed_witness:
  "on_decide_policy sample_env sample_view
     \<lparr>mime_type = '''', request_uri = ''https://ads.example/x'', mouse_button = 0,
      navigation_type = OTHER\<rparr> NEW_WINDOW_ACTION = (sample_view, [], Return None)
   \<and> emit_decide_policy sample_env sample_view
     \<lparr>mime_type = '''', request_uri = ''https://ads.example/x'', mouse_button = 0,
      navigation_type = OTHER\<rparr> NEW_WINDOW_ACTION = (sample_view, [DecisionUse])
   \<and> decision_taken (snd (emit_decide_policy sample_env sample_view
     \<lparr>mime_type = '''', request_uri = ''https://ads.example/x'', mouse_button = 0,
      navigation_type = OTHER\<rparr> NEW_WINDOW_ACTION)) = Some DecisionUse"
proof -
  let ?d = "\<lparr>mime_type = '''', request_uri = ''https://ads.example/x'', mouse_button = 0,
             navigation_type = OTHER\<rparr>"
  let ?p = "\<lparr>scheme = ''https'', netloc = ''ads.example'', path = ''/x'',
             params = '''', query = '''', fragment = ''''\<rparr>"
  have "on_decide_policy sample_env sample_view ?d NEW_WINDOW_ACTION
          = (sample_view, [], Return None)
    \<and> emit_decide_policy sample_env sample_view ?d NEW_WINDOW_ACTION
          = (sample_view, [DecisionUse])
    \<and> decision_taken (snd (emit_decide_policy sample_env sample_view ?d NEW_WINDOW_ACTION))
          = Some DecisionUse
    \<and> list_all (\<lambda>e. \<forall>u b. e \<noteq> EmitNewPage u b)
         (snd (emit_decide_policy sample_env sample_view ?d NEW_WINDOW_ACTION))"
    by (rule decide_policy_popup_suppressed [where p = ?p])
       (simp_all add: parse_ads sample_env_def)
  then show ?thesis by simp
qed

text \<open>The other branches end as the handler decides: its own call comes first, and an
  emission it ends with \<open>True\<close> never reaches the default handler.\<close>

lemma decision_taken_by_handler:
  "decision_taken (fst (snd (on_decide_policy E self d t))) = Some c
     \<Longrightarrow> decision_taken (snd (emit_decide_policy E self d t)) = Some c"
  by (auto simp: emit_decide_policy_def on_decide_policy_def split: sum.splits if_splits)

text \<open>
  C2. For a response decision the handler calls \<open>use\<close> when the engine can show the MIME
  type and \<open>download\<close> otherwise, returns \<open>False\<close> and leaves the view as it was; two
  response decisions that agree on whether the MIME type can be shown get the same
  decision, whatever their mouse buttons, navigation types, settings, exception
  registries and views.
\<close>

theorem decide_policy_response:
  "on_decide_policy E self d RESPONSE =
     (self, [if can_show_mime_type E (mime_type d) then DecisionUse else DecisionDownload],
      Return (Some False))
   \<and> (can_show_mime_type E (mime_type d) = can_show_mime_type E' (mime_type d')
        \<longrightarrow> snd (on_decide_policy E self d RESPONSE)
            = snd (on_decide_policy E' self' d' RESPONSE))"
  by (simp add: on_decide_policy_def)

theorem decide_policy_response_witness:
  "on_decide_policy sample_env sample_view
     \<lparr>mime_type = ''application/pdf'', request_uri = ''https://a.example/f.pdf'',
      mouse_button = 0, navigation_type = OTHER\<rparr> RESPONSE
     = (sample_view, [DecisionDownload], Return (Some False))
   \<and> snd (on_decide_policy sample_env sample_view
        \<lparr>mime_type = ''application/pdf'', request_uri = ''https://a.example/f.pdf'',
         mouse_button = 0, navigation_type = OTHER\<rparr> RESPONSE)
     = snd (on_decide_policy
        (sample_env\<lparr>popupblock := False, is_an_exception := (\<lambda>s. True)\<rparr>)
        (sample_view\<lparr>loaded_uri := ''https://b.example/''\<rparr>)
        \<lparr>mime_type = ''application/zip'', request_uri = ''https://b.example/g.zip'',
         mouse_button = 2, navigation_type = LINK_CLICKED\<rparr> RESPONSE)"
proof -
  let ?d = "\<lparr>mime_type = ''application/pdf'', request_uri = ''https://a.example/f.pdf'',
             mouse_button = 0, navigation_type = OTHER\<rparr>"
  let ?d' = "\<lparr>mime_type = ''application/zip'', request_uri = ''https://b.example/g.zip'',
              mouse_button = 2, navigation_type = LINK_CLICKED\<rparr>"
  let ?E' = "sample_env\<lparr>popupblock := False, is_an_exception := (\<lambda>s. True)\<rparr>"
  let ?v' = "sample_view\<lparr>loaded_uri := ''https://b.example/''\<rparr>"
  note inst = decide_policy_response
    [where E = sample_env and self = sample_view and d = ?d
       and E' = ?E' and self' = ?v' and d' = ?d']
  have same: "can_show_mime_type sample_env (mime_type ?d)
      = can_show_mime_type ?E' (mime_type ?d')"
    by (simp add: sample_env_def)
  have first: "on_decide_policy sample_env sample_view ?d RESPONSE
      = (sample_view, [DecisionDownload], Return (Some False))"
    using conjunct1 [OF inst] by (simp add: sample_env_def)
  have second: "snd (on_decide_policy sample_env sample_view ?d RESPONSE)
      = snd (on_decide_policy ?E' ?v' ?d' RESPONSE)"
    by (rule mp [OF conjunct2 [OF inst] same])
  from first second show ?thesis by (rule conjI)
qed

text \<open>
  C3 (as amended). The decision and the return value never depend on the view's state.
  The handler leaves the view as it was, except that for a navigation or new-window action
  started with mouse button 1 it stores the request URI in the loaded-URI field; run
  again on the view it left, with the same request and surroundings, it gives the same
  result again.
\<close>

theorem decide_policy_state:
  "fst (on_decide_policy E self d t)
     = (if t \<noteq> RESPONSE \<and> mouse_button d = 1 then self\<lparr>loaded_uri := request_uri d\<rparr> else self)
   \<and> snd (on_decide_policy E self d t) = snd (on_decide_policy E self' d t)
   \<and> on_decide_policy E (fst (on_decide_policy E self d t)) d t = on_decide_policy E self d t"
  by (simp add: on_decide_policy_def split: sum.splits)

theorem decide_policy_state_witness:
  "fst (on_decide_policy sample_env sample_view
          \<lparr>mime_type = '''', request_uri = ''https://a.example/'', mouse_button = 1,
           navigation_type = LINK_CLICKED\<rparr> NAVIGATION_ACTION)
     = sample_view\<lparr>loaded_uri := ''https://a.example/''\<rparr>
   \<and> fst (on_decide_policy sample_env sample_view
          \<lparr>mime_type = '''', request_uri = ''https://a.example/'', mouse_button = 2,
           navigation_type = LINK_CLICKED\<rparr> NAVIGATION_ACTION)
     = sample_view"
  using decide_policy_state [of sample_env sample_view
          "\<lparr>mime_type = '''', request_uri = ''https://a.example/'', mouse_button = 1,
           navigation_type = LINK_CLICKED\<rparr>" NAVIGATION_ACTION sample_view]
    decide_policy_state [of sample_env sample_view
          "\<lparr>mime_type = '''', request_uri = ''https://a.example/'', mouse_button = 2,
           navigation_type = LINK_CLICKED\<rparr>" NAVIGATION_ACTION sample_view]
  by simp

text \<open>
  The claim as stated, that the handler leaves the loaded-URI field unchanged, fails for
  a link opened with the primary button.
\<close>

theorem decide_policy_mutates_counterexample:
  "loaded_uri sample_view = ''''
   \<and> on_decide_policy sample_env sample_view
        \<lparr>mime_type = '''', request_uri = ''https://a.example/'', mouse_button = 1,
         navigation_type = LINK_CLICKED\<rparr> NAVIGATION_ACTION
      = (sample_view\<lparr>loaded_uri := ''https://a.example/''\<rparr>, [DecisionUse], Return (Some False))
   \<and> fst (on_decide_policy sample_env sample_view
        \<lparr>mime_type = '''', request_uri = ''https://a.example/'', mouse_button = 1,
         navigation_type = LINK_CLICKED\<rparr> NAVIGATION_ACTION) \<noteq> sample_view"
  by (simp add: on_decide_policy_def sample_view_def)

section \<open>The pending certificate\<close>

lemma split_scheme_https: "split_scheme (''https://'' @ x) = (''https'', ''//'' @ x)"
  by (simp add: split_scheme_def upto_def lower_def lower_char_def scheme_chars_def Let_def)

lemma urlsplit_scheme: "urlsplit u = Inr r \<Longrightarrow> scheme r = fst (split_scheme u)"
  by (auto simp: urlsplit_def Let_def split: prod.splits if_splits)

lemma urlparse_scheme: "urlparse u = Inr r \<Longrightarrow> scheme r = fst (split_scheme u)"
  by (auto simp: urlparse_def urlsplit_scheme split: sum.splits if_splits)

lemma https_scheme:
  assumes "urlparse (''https://'' @ x) = Inr q"
  shows "scheme q = ''https''"
proof -
  from assms have "scheme q = fst (split_scheme (''https://'' @ x))"
    by (rule urlparse_scheme)
  then show ?thesis by (simp only: split_scheme_https fst_conv)
qed

lemma load_uri_clears:
  assumes "urlparse uri = Inr p" and "scheme p \<in> {''http'', ''https'', ''file'', ''populars''}"
  shows "load_uri E self uri =
     (self\<lparr>bad_tls := None, insecure_content_detected := Some False, loaded_uri := uri\<rparr>,
      [CancellableCancel, CancellableReset, WebKitLoadUri uri], Return None)"
proof -
  have "uri \<noteq> ''about:blank''" using assms parse_about_blank by auto
  with assms show ?thesis by (auto simp: load_uri_def)
qed

lemma load_uri_accept:
  assumes "urlparse uri = Inr p" and "scheme p = ''accept''"
  shows "load_uri E self uri =
     (self\<lparr>loaded_uri := uri\<rparr>, [CancellableCancel, CancellableReset, WebKitLoadUri uri],
      Return None)"
proof -
  have "uri \<noteq> ''about:blank''" using assms parse_about_blank by auto
  with assms show ?thesis by (auto simp: load_uri_def)
qed

lemma load_uri_bad_tls:
  "bad_tls (fst (load_uri E self uri)) = None
   \<or> bad_tls (fst (load_uri E self uri)) = bad_tls self"
  by (simp add: load_uri_def split: sum.splits option.splits)

lemma decide_policy_bad_tls:
  "bad_tls (fst (on_decide_policy E self d t)) = bad_tls self"
  by (simp add: on_decide_policy_def split: sum.splits)

lemma update_zoom_level_view: "fst (update_zoom_level E self) = self"
  by (simp add: update_zoom_level_def Let_def split: sum.splits option.splits)

lemma load_changed_bad_tls:
  "bad_tls (fst (on_load_changed E self ev)) = bad_tls self"
proof (cases "urlparse (get_uri E)")
  case (Inl e)
  then show ?thesis by (simp add: on_load_changed_def)
next
  case (Inr parsed)
  show ?thesis
  proof (cases ev)
    case COMMITTED
    obtain s effs out where u: "update_zoom_level E self = (s, effs, out)"
      by (cases "update_zoom_level E self") auto
    with update_zoom_level_view [of E self] have "s = self" by simp
    with Inr COMMITTED u show ?thesis by (simp add: on_load_changed_def Let_def)
  qed (simp_all add: Inr on_load_changed_def send_title_def Let_def split: prod.splits)
qed

lemma load_failed_view: "fst (on_load_failed E self uri code) = self"
  by (simp add: on_load_failed_def Let_def)

lemma accept_bad_tls_none:
  "bad_tls self = None \<Longrightarrow> bad_tls (fst (on_accept_scheme E self uri)) = None"
  by (simp add: on_accept_scheme_def)

lemma check_for_network_bad_tls:
  "bad_tls (fst (check_for_network E self uri)) = None
   \<or> bad_tls (fst (check_for_network E self uri)) = bad_tls self"
  using load_uri_bad_tls [of E self uri]
  by (cases "load_uri E self uri") (auto simp: check_for_network_def)

lemma only_tls_failure_sets:
  assumes "bad_tls self = None" and "\<forall>u c n. ev \<noteq> LoadFailedTls u c n"
  shows "bad_tls (fst (handle E self ev)) = None"
proof (cases ev)
  case (LoadUri uri)
  with assms load_uri_bad_tls [of E self uri] show ?thesis by auto
next
  case (DecidePolicy d t)
  with assms show ?thesis by (simp add: decide_policy_bad_tls)
next
  case (LoadChanged e)
  with assms show ?thesis by (simp add: load_changed_bad_tls)
next
  case (LoadFailed uri code)
  with assms show ?thesis by (simp add: load_failed_view)
next
  case (LoadFailedTls u c n)
  with assms show ?thesis by simp
next
  case (AcceptScheme uri)
  with assms show ?thesis by (simp add: accept_bad_tls_none)
next
  case (CheckForNetwork uri)
  with assms check_for_network_bad_tls [of E self uri] show ?thesis by auto
qed

lemma accept_clears:
  assumes "bad_tls self = Some c" and "urlparse uri = Inr p"
    and "urlparse (''https://'' @ netloc p @ path p) = Inr q"
  shows "on_accept_scheme E self uri =
     (self\<lparr>bad_tls := None, insecure_content_detected := Some False,
           loaded_uri := ''https://'' @ netloc p @ path p\<rparr>,
      [AllowTlsCertificateForHost c (netloc p), CancellableCancel, CancellableReset,
       WebKitLoadUri (''https://'' @ netloc p @ path p)], Return None)"
proof -
  have "scheme q = ''https''" using assms(3) https_scheme [of "netloc p @ path p" q] by simp
  then have "load_uri E self (''https://'' @ netloc p @ path p) =
     (self\<lparr>bad_tls := None, insecure_content_detected := Some False,
           loaded_uri := ''https://'' @ netloc p @ path p\<rparr>,
      [CancellableCancel, CancellableReset, WebKitLoadUri (''https://'' @ netloc p @ path p)],
      Return None)"
    using load_uri_clears [OF assms(3), of E self] by simp
  with assms(1,2) show ?thesis by (simp add: on_accept_scheme_def)
qed

text \<open>
  C4 (as amended). The pending certificate of a view becomes non-null by a TLS failure
  only, which stores the rejected certificate. \<open>load_uri\<close> clears it when the scheme
  of the URI is \<open>http\<close>, \<open>https\<close>, \<open>file\<close> or \<open>populars\<close> and keeps it
  for the \<open>accept\<close> scheme; \<open>load_uri\<close> of \<open>about:blank\<close> returns early and
  keeps it, and the load events (started, committed, finished) never change it.
  Accepting the override with a certificate pending reloads through an \<open>https\<close>
  \<open>load_uri\<close> and so clears it.
\<close>

theorem pending_certificate:
  "(bad_tls self = None \<and> (\<forall>u c n. ev \<noteq> LoadFailedTls u c n)
      \<longrightarrow> bad_tls (fst (handle E self ev)) = None)
   \<and> bad_tls (fst (on_load_failed_tls E self uri certificate errors)) = Some certificate
   \<and> (urlparse uri = Inr p \<and> scheme p \<in> {''http'', ''https'', ''file'', ''populars''}
      \<longrightarrow> bad_tls (fst (load_uri E self uri)) = None)
   \<and> (urlparse uri = Inr p \<and> scheme p = ''accept''
      \<longrightarrow> bad_tls (fst (load_uri E self uri)) = bad_tls self)
   \<and> bad_tls (fst (load_uri E self ''about:blank'')) = bad_tls self
   \<and> bad_tls (fst (on_load_changed E self lev)) = bad_tls self
   \<and> (bad_tls self = Some c \<and> urlparse uri = Inr p
        \<and> urlparse (''https://'' @ netloc p @ path p) = Inr q
      \<longrightarrow> bad_tls (fst (on_accept_scheme E self uri)) = None)"
proof (intro conjI impI)
  assume "bad_tls self = None \<and> (\<forall>u c n. ev \<noteq> LoadFailedTls u c n)"
  then show "bad_tls (fst (handle E self ev)) = None" by (simp add: only_tls_failure_sets)
next
  show "bad_tls (fst (on_load_failed_tls E self uri certificate errors)) = Some certificate"
    by (simp add: on_load_failed_tls_def)
next
  assume "urlparse uri = Inr p \<and> scheme p \<in> {''http'', ''https'', ''file'', ''populars''}"
  then show "bad_tls (fst (load_uri E self uri)) = None"
    using load_uri_clears [of uri p E self] by simp
next
  assume "urlparse uri = Inr p \<and> scheme p = ''accept''"
  then show "bad_tls (fst (load_uri E self uri)) = bad_tls self"
    using load_uri_accept [of uri p E self] by simp
next
  show "bad_tls (fst (load_uri E self ''about:blank'')) = bad_tls self"
    by (simp add: load_uri_def)
next
  show "bad_tls (fst (on_load_changed E self lev)) = bad_tls self"
    by (rule load_changed_bad_tls)
next
  assume "bad_tls self = Some c \<and> urlparse uri = Inr p
        \<and> urlparse (''https://'' @ netloc p @ path p) = Inr q"
  then show "bad_tls (fst (on_accept_scheme E self uri)) = None"
    using accept_clears [of self c uri p q E] by simp
qed

theorem pending_certificate_witness:
  "bad_tls (fst (handle sample_env sample_view (LoadChanged FINISHED))) = None
   \<and> bad_tls (fst (load_uri sample_env (sample_view\<lparr>bad_tls := Some (TlsCertificate 7)\<rparr>)
        ''http://example.org/'')) = None
   \<and> bad_tls (fst (load_uri sample_env (sample_view\<lparr>bad_tls := Some (TlsCertificate 7)\<rparr>)
        ''accept://example.org/'')) = Some (TlsCertificate 7)
   \<and> bad_tls (fst (on_accept_scheme sample_env
        (sample_view\<lparr>bad_tls := Some (TlsCertificate 7)\<rparr>) ''accept://example.org/'')) = None"
proof -
  let ?v = "sample_view\<lparr>bad_tls := Some (TlsCertificate 7)\<rparr>"
  let ?http = "\<lparr>scheme = ''http'', netloc = ''example.org'', path = ''/'', params = '''',
          query = '''', fragment = ''''\<rparr>"
  let ?accept = "\<lparr>scheme = ''accept'', netloc = ''example.org'', path = ''/'', params = '''',
          query = '''', fragment = ''''\<rparr>"
  let ?https = "\<lparr>scheme = ''https'', netloc = ''example.org'', path = ''/'', params = '''',
          query = '''', fragment = ''''\<rparr>"
  have one: "bad_tls (fst (handle sample_env sample_view (LoadChanged FINISHED))) = None"
    using pending_certificate [where self = sample_view and ev = "LoadChanged FINISHED"
        and E = sample_env]
    by (simp add: sample_view_def)
  have two: "bad_tls (fst (load_uri sample_env ?v ''http://example.org/'')) = None"
    using pending_certificate [where uri = "''http://example.org/''" and p = ?http
        and E = sample_env and self = ?v]
    by (simp add: parse_example)
  have three: "bad_tls (fst (load_uri sample_env ?v ''accept://example.org/''))
      = Some (TlsCertificate 7)"
    using pending_certificate [where uri = "''accept://example.org/''" and p = ?accept
        and E = sample_env and self = ?v]
    by (simp add: parse_accept_example)
  have four: "bad_tls (fst (on_accept_scheme sample_env ?v ''accept://example.org/'')) = None"
    using pending_certificate [where uri = "''accept://example.org/''" and p = ?accept
        and q = ?https and c = "TlsCertificate 7" and E = sample_env and self = ?v]
    by (simp add: parse_accept_example parse_https_example)
  from one two three four show ?thesis by simp
qed

text \<open>
  The claim as stated, that every load of a non-accept target clears the pending
  certificate, fails for \<open>load_uri\<close> of \<open>about:blank\<close> and for a load the engine
  starts at \<open>http://example.org/\<close>: both keep the certificate.
\<close>

theorem pending_certificate_kept_counterexample:
  "bad_tls (sample_view\<lparr>bad_tls := Some (TlsCertificate 7)\<rparr>) = Some (TlsCertificate 7)
   \<and> load_uri sample_env (sample_view\<lparr>bad_tls := Some (TlsCertificate 7)\<rparr>) ''about:blank''
       = (sample_view\<lparr>bad_tls := Some (TlsCertificate 7), loaded_uri := ''about:blank''\<rparr>,
          [CancellableCancel, CancellableReset, LoadPlainText ''''], Return None)
   \<and> get_uri sample_env = ''http://example.org/''
   \<and> on_load_changed sample_env (sample_view\<lparr>bad_tls := Some (TlsCertificate 7)\<rparr>) STARTED
       = (sample_view\<lparr>bad_tls := Some (TlsCertificate 7)\<rparr>, [], Return None)"
  by (simp add: load_uri_def on_load_changed_def sample_env_def sample_view_def parse_example)

section \<open>The TLS trust override\<close>

lemma tls_error_reasons:
  "tls_error BAD_IDENTITY = ''The certificate does not match this website''
   \<and> tls_error EXPIRED = ''The certificate has expired''
   \<and> tls_error UNKNOWN_CA = ''The signing certificate authority is not known''
   \<and> tls_error GENERIC_ERROR = ''The certificate contains errors''
   \<and> tls_error REVOKED = ''The certificate has been revoked''
   \<and> tls_error INSECURE = ''The certificate is signed using a weak signature algorithm''
   \<and> tls_error NOT_ACTIVATED = ''The certificate activation time is still in the future''
   \<and> (errors \<notin> {BAD_IDENTITY, EXPIRED, UNKNOWN_CA, GENERIC_ERROR, REVOKED, INSECURE,
                   NOT_ACTIVATED}
        \<longrightarrow> tls_error errors = ''The identity of this website has not been verified'')"
  by (simp add: tls_error_def BAD_IDENTITY_def EXPIRED_def UNKNOWN_CA_def GENERIC_ERROR_def
        REVOKED_def INSECURE_def NOT_ACTIVATED_def)

lemma accept_registers_and_reloads:
  assumes "bad_tls self = Some c" and "urlparse uri = Inr p"
    and "urlparse (''https://'' @ netloc p @ path p) = Inr q"
  shows "fst (snd (on_accept_scheme E self uri)) =
      [AllowTlsCertificateForHost c (netloc p), CancellableCancel, CancellableReset,
       WebKitLoadUri (''https://'' @ netloc p @ path p)]"
  using accept_clears [OF assms, of E] by simp

text \<open>
  C5. The failure flag \<open>EXPIRED\<close> is shown as "The certificate has expired", and the
  interstitial's action is the failing URI with \<open>https://\<close> replaced by
  \<open>accept://\<close>. Accepting it for \<open>https://example.org/a?b=1\<close> registers the
  certificate for \<open>example.org\<close> and then loads \<open>https://example.org/a\<close>: the query
  of the original URI is lost, so the URI reloaded is not the original one.
\<close>

theorem accept_override_drops_query:
  "fst (on_load_failed_tls sample_env sample_view ''https://example.org/a?b=1''
          (TlsCertificate 7) EXPIRED)
     = sample_view\<lparr>bad_tls := Some (TlsCertificate 7)\<rparr>
   \<and> map (\<lambda>e. case e of LoadHtml page \<Rightarrow> (page_message page, page_action page) | _ \<Rightarrow> ('''', ''''))
        (fst (snd (on_load_failed_tls sample_env sample_view ''https://example.org/a?b=1''
          (TlsCertificate 7) EXPIRED)))
     = [(''The certificate has expired'',
         ''load_uri('' @ [CHR 0x27] @ ''accept://example.org/a?b=1'' @ [CHR 0x27] @ '')'')]
   \<and> on_accept_scheme sample_env (sample_view\<lparr>bad_tls := Some (TlsCertificate 7)\<rparr>)
        ''accept://example.org/a?b=1''
     = (sample_view\<lparr>bad_tls := None, insecure_content_detected := Some False,
                     loaded_uri := ''https://example.org/a''\<rparr>,
        [AllowTlsCertificateForHost (TlsCertificate 7) ''example.org'',
         CancellableCancel, CancellableReset, WebKitLoadUri ''https://example.org/a''],
        Return None)
   \<and> ''https://example.org/a'' \<noteq> ''https://example.org/a?b=1''"
  by (simp add: on_load_failed_tls_def tls_error_def EXPIRED_def BAD_IDENTITY_def
        replace.simps on_accept_scheme_def parse_accept_query load_uri_def parse_https_a
        sample_view_def)

text \<open>
  C10. With no certificate pending, the handler of the \<open>accept\<close> scheme does nothing:
  no certificate is registered, nothing is loaded and the view is as it was.
\<close>

theorem accept_without_certificate:
  "bad_tls self = None \<Longrightarrow> on_accept_scheme E self uri = (self, [], Return None)"
  by (simp add: on_accept_scheme_def)

theorem accept_without_certificate_witness:
  "bad_tls sample_view = None
   \<and> on_accept_scheme sample_env sample_view ''accept://example.org/'' = (sample_view, [], Return None)"
proof -
  have none: "bad_tls sample_view = None" by (simp add: sample_view_def)
  from none accept_without_certificate [OF none] show ?thesis by (rule conjI)
qed

section \<open>Load failures\<close>

text \<open>
  C6. A load failure renders the error page exactly when the error code is 2, 4 or 44,
  and then returns \<open>True\<close>; for any other code the handler prints the code, returns
  \<open>False\<close> and does nothing else. The view's state is never changed.
\<close>

theorem load_failed_error_page:
  "((\<exists>page. LoadHtml page \<in> set (fst (snd (on_load_failed E self uri code))))
      \<longleftrightarrow> code \<in> {2, 4, 44})
   \<and> (code \<in> {2, 4, 44} \<longrightarrow> snd (snd (on_load_failed E self uri code)) = Return (Some True))
   \<and> (code \<notin> {2, 4, 44} \<longrightarrow>
        on_load_failed E self uri code
          = (self, [Print [PStr ''WebView::__on_load_failed():'', PInt code]],
             Return (Some False)))
   \<and> fst (on_load_failed E self uri code) = self"
  by (auto simp: on_load_failed_def Let_def)

theorem load_failed_error_page_witness:
  "(\<exists>page. LoadHtml page \<in> set (fst (snd (on_load_failed sample_env sample_view ''http://example.org/'' 44))))
   \<and> snd (snd (on_load_failed sample_env sample_view ''http://example.org/'' 44)) = Return (Some True)
   \<and> on_load_failed sample_env sample_view ''http://example.org/'' 3
        = (sample_view, [Print [PStr ''WebView::__on_load_failed():'', PInt 3]], Return (Some False))"
  using load_failed_error_page [of sample_env sample_view "''http://example.org/''" 44]
    load_failed_error_page [of sample_env sample_view "''http://example.org/''" 3]
  by simp


lemma load_uri_outcome: "snd (snd (load_uri E self uri)) \<noteq> Return (Some True)"
  by (simp add: load_uri_def split: sum.splits option.splits)








section \<open>Load events\<close>

text \<open>
  C9 (as amended). On load committed, for a view whose URI parses, the handler sets
  \<open>auto-load-images\<close> to
  \<open>\<not> imgblock \<or> is_an_exception host \<or> is_an_exception (host + path)\<close>. The zoom level
  it sets is the stored zoom of the host, 100 when the host has no entry, divided by
  100; before the division it is multiplied by the zoom level of the window that holds
  the related view (the view itself when it has none), when there is such a window, and
  left unmultiplied when there is not. Products and quotients are Python's.
\<close>

theorem committed_images_and_zoom:
  assumes "urlparse (get_uri E) = Inr p"
  shows "on_load_changed E self COMMITTED =
     (self,
      [SetProperty ''auto-load-images''
         (\<not> imgblock E \<or> is_an_exception E (netloc p) \<or> is_an_exception E (netloc p @ path p)),
       SetSettings]
      @ (case window_zoom_level E (related_view self) of
           Some w \<Rightarrow>
             [Debug [PStr ''Update zoom level: '',
                     PNum (Mul (case zoom_levels E (netloc p) of None \<Rightarrow> Num 100 | Some z \<Rightarrow> z) w)],
              SetZoomLevel
                (TrueDiv (Mul (case zoom_levels E (netloc p) of None \<Rightarrow> Num 100 | Some z \<Rightarrow> z) w)
                   (Num 100))]
         | None \<Rightarrow>
             [Print [PStr ''WebView::update_zoom_level()'', PErr AttributeError],
              Debug [PStr ''Update zoom level: '',
                     PNum (case zoom_levels E (netloc p) of None \<Rightarrow> Num 100 | Some z \<Rightarrow> z)],
              SetZoomLevel
                (TrueDiv (case zoom_levels E (netloc p) of None \<Rightarrow> Num 100 | Some z \<Rightarrow> z)
                   (Num 100))]),
      Return None)"
  using assms
  by (simp add: on_load_changed_def update_zoom_level_def set_setting_def Let_def
           split: option.splits)

theorem committed_images_and_zoom_witness:
  "on_load_changed sample_env sample_view COMMITTED =
     (sample_view,
      [SetProperty ''auto-load-images'' False, SetSettings,
       Debug [PStr ''Update zoom level: '', PNum (Mul (Num 150) (Num 2))],
       SetZoomLevel (TrueDiv (Mul (Num 150) (Num 2)) (Num 100))], Return None)
   \<and> on_load_changed
        (sample_env\<lparr>imgblock := False, zoom_levels := Map.empty,
                     window_zoom_level := (\<lambda>r. None)\<rparr>) sample_view COMMITTED =
     (sample_view,
      [SetProperty ''auto-load-images'' True, SetSettings,
       Print [PStr ''WebView::update_zoom_level()'', PErr AttributeError],
       Debug [PStr ''Update zoom level: '', PNum (Num 100)],
       SetZoomLevel (TrueDiv (Num 100) (Num 100))], Return None)"
proof -
  let ?p = "\<lparr>scheme = ''http'', netloc = ''example.org'', path = ''/'', params = '''',
          query = '''', fragment = ''''\<rparr>"
  let ?E = "sample_env\<lparr>imgblock := False, zoom_levels := Map.empty,
                       window_zoom_level := (\<lambda>r. None)\<rparr>"
  have one: "on_load_changed sample_env sample_view COMMITTED =
     (sample_view,
      [SetProperty ''auto-load-images'' False, SetSettings,
       Debug [PStr ''Update zoom level: '', PNum (Mul (Num 150) (Num 2))],
       SetZoomLevel (TrueDiv (Mul (Num 150) (Num 2)) (Num 100))], Return None)"
    using committed_images_and_zoom [where E = sample_env and p = ?p and self = sample_view]
    by (simp add: sample_env_def parse_example)
  have two: "on_load_changed ?E sample_view COMMITTED =
     (sample_view,
      [SetProperty ''auto-load-images'' True, SetSettings,
       Print [PStr ''WebView::update_zoom_level()'', PErr AttributeError],
       Debug [PStr ''Update zoom level: '', PNum (Num 100)],
       SetZoomLevel (TrueDiv (Num 100) (Num 100))], Return None)"
    using committed_images_and_zoom [where E = ?E and p = ?p and self = sample_view]
    by (simp add: sample_env_def parse_example)
  from one two show ?thesis by (rule conjI)
qed

text \<open>
  The claim as stated, that the zoom applied is the host's stored zoom times the
  window's zoom level, fails for a view in a window of zoom level 2 whose related view
  is in no window: for the stored zoom 150 the handler sets 150 / 100, with no product.
\<close>

theorem committed_zoom_without_window_counterexample:
  "zoom_levels sample_env ''example.org'' = Some (Num 150)
   \<and> window_zoom_level
        (sample_env\<lparr>window_zoom_level := (\<lambda>r. if r = None then Some (Num 2) else None)\<rparr>)
        None = Some (Num 2)
   \<and> on_load_changed
        (sample_env\<lparr>window_zoom_level := (\<lambda>r. if r = None then Some (Num 2) else None)\<rparr>)
        (sample_view\<lparr>related_view := Some 1\<rparr>) COMMITTED =
     (sample_view\<lparr>related_view := Some 1\<rparr>,
      [SetProperty ''auto-load-images'' False, SetSettings,
       Print [PStr ''WebView::update_zoom_level()'', PErr AttributeError],
       Debug [PStr ''Update zoom level: '', PNum (Num 150)],
       SetZoomLevel (TrueDiv (Num 150) (Num 100))], Return None)
   \<and> SetZoomLevel (TrueDiv (Mul (Num 150) (Num 2)) (Num 100))
       \<notin> set (fst (snd (on_load_changed
        (sample_env\<lparr>window_zoom_level := (\<lambda>r. if r = None then Some (Num 2) else None)\<rparr>)
        (sample_view\<lparr>related_view := Some 1\<rparr>) COMMITTED)))"
  by (simp add: on_load_changed_def update_zoom_level_def set_setting_def parse_example
        sample_env_def sample_view_def Let_def)

text \<open>
  C8. On load finished with the ad-block setting off, a view that never saw a title
  emits no \<open>title-changed\<close> and keeps its empty title: the title is synthesized from the
  URI only inside the branch of the ad-block setting, as the same event with the setting
  on shows (there the script of the host with its last label stripped is run, too).
\<close>

theorem finished_title_needs_adblock:
  "\<not> adblock sample_env \<and> title sample_view = '''' \<and> get_title sample_env = None
   \<and> get_uri sample_env = ''http://example.org/''
   \<and> on_load_changed sample_env sample_view FINISHED = (sample_view, [], Return None)
   \<and> on_load_changed (sample_env\<lparr>adblock := True\<rparr>) sample_view FINISHED
       = (sample_view\<lparr>title := ''http://example.org/''\<rparr>,
          [EmitTitleChanged ''http://example.org/'',
           RunJavascriptFromGResource ''/org/gnome/Eolie/adblock/adblock_example.js''],
          Return None)"
  by (simp add: on_load_changed_def parse_example sample_env_def sample_view_def
        send_title_def Let_def)

theorem finished_title_needs_adblock_witness:
  "title (fst (on_load_changed sample_env sample_view FINISHED)) = ''''
   \<and> fst (snd (on_load_changed sample_env sample_view FINISHED)) = []
   \<and> title (fst (on_load_changed (sample_env\<lparr>adblock := True\<rparr>) sample_view FINISHED))
       = ''http://example.org/''"
  using finished_title_needs_adblock by (simp add: sample_view_def)

lemma run_adblock_at_most_one: "length (run_adblock E p js) \<le> 1"
  by (induction js) simp_all

lemma run_adblock_two:
  "run_adblock E p [a, b] =
     (if a \<in> set (adblock_children E) then
        (if is_an_exception E (netloc p) \<or> is_an_exception E (netloc p @ path p) then []
         else [RunJavascriptFromGResource (''/org/gnome/Eolie/adblock/'' @ a)])
      else if b \<in> set (adblock_children E) then
        (if is_an_exception E (netloc p) \<or> is_an_exception E (netloc p @ path p) then []
         else [RunJavascriptFromGResource (''/org/gnome/Eolie/adblock/'' @ b)])
      else [])"
  by simp

lemma finished_with_adblock:
  assumes "urlparse (get_uri E) = Inr p" and "adblock E"
  shows "on_load_changed E self FINISHED =
     (fst (send_title E self),
      snd (send_title E self)
        @ run_adblock E p
            [''adblock_'' @ netloc p @ ''.js'',
             ''adblock_'' @ join ''.'' (butlast (split CHR ''.'' (netloc p))) @ ''.js''],
      Return None)"
  using assms by (simp add: on_load_changed_def Let_def split: prod.splits)

lemma send_title_synthesized:
  "title self = '''' \<Longrightarrow> get_title E = None \<or> get_title E = Some '''' \<Longrightarrow>
     send_title E self = (self\<lparr>title := get_uri E\<rparr>, [EmitTitleChanged (get_uri E)])"
  by (auto simp: send_title_def Let_def)

end
